theory Spec2Isabelle
  imports Complex_Main "HOL-Library.Code_Target_Numeral"
begin

section \<open>Identifier formatter (CadastroEmpresa: aplicarMascaraCNPJ, limparCNPJ)\<close>

text \<open>
  JavaScript strings are modelled as \<open>string\<close> (a list of bytes, UTF-8). The class
  \<open>\d\<close> of a regular expression without the unicode flag is the ten ASCII digits, and
  every byte of a multi-byte UTF-8 sequence lies outside that range, so filtering bytes
  agrees with filtering characters.
\<close>

definition is_digit :: "char \<Rightarrow> bool" where
  "is_digit c = (c \<in> set ''0123456789'')"

text \<open>\<^verbatim>\<open>valor.replace(/\D/g, '')\<close>: every non-digit is deleted.\<close>

definition strip_non_digits :: "string \<Rightarrow> string" where
  "strip_non_digits valor = filter is_digit valor"

text \<open>
  The four grouping patterns all have the same shape: capture groups of a fixed number
  of digits, followed by one last greedy group \<open>(\d{0,m})\<close>. \<open>match_fixed\<close> matches the
  fixed groups at the start of the text, \<open>match_here\<close> adds the greedy last group and
  returns the captured groups with the text left after the match. The last group can
  always match (it accepts the empty string), so the engine never backtracks.
\<close>

fun match_fixed :: "nat list \<Rightarrow> string \<Rightarrow> (string list \<times> string) option" where
  "match_fixed [] s = Some ([], s)"
| "match_fixed (n # ns) s =
     (if n \<le> length s \<and> list_all is_digit (take n s)
      then (case match_fixed ns (drop n s) of
              None \<Rightarrow> None
            | Some (gs, r) \<Rightarrow> Some (take n s # gs, r))
      else None)"

definition match_here :: "nat list \<Rightarrow> nat \<Rightarrow> string \<Rightarrow> (string list \<times> string) option" where
  "match_here ns m s =
     (case match_fixed ns s of
        None \<Rightarrow> None
      | Some (gs, r) \<Rightarrow>
          (let g = takeWhile is_digit (take m r)
           in Some (gs @ [g], drop (length g) r)))"

text \<open>
  The replacement templates \<^verbatim>\<open>'$1.$2'\<close>, \<^verbatim>\<open>'$1.$2.$3'\<close>, \<^verbatim>\<open>'$1.$2.$3/$4'\<close> and
  \<^verbatim>\<open>'$1.$2.$3/$4-$5'\<close> alternate the groups with one separator character each.
\<close>

fun subst_groups :: "string \<Rightarrow> string list \<Rightarrow> string" where
  "subst_groups seps [] = []"
| "subst_groups [] (g # gs) = g @ subst_groups [] gs"
| "subst_groups (c # seps) [g] = g"
| "subst_groups (c # seps) (g # gs) = g @ c # subst_groups seps gs"

text \<open>
  \<^verbatim>\<open>String.prototype.replace\<close> with a regular expression that has no \<open>g\<close> flag: the
  leftmost match is replaced by the instantiated template; the text before the match
  and the text after it are kept as they are. Without a match the string is returned
  unchanged.
\<close>

fun replace_first :: "nat list \<Rightarrow> nat \<Rightarrow> string \<Rightarrow> string \<Rightarrow> string" where
  "replace_first ns m seps [] =
     (case match_here ns m [] of
        Some (gs, r) \<Rightarrow> subst_groups seps gs @ r
      | None \<Rightarrow> [])"
| "replace_first ns m seps (c # cs) =
     (case match_here ns m (c # cs) of
        Some (gs, r) \<Rightarrow> subst_groups seps gs @ r
      | None \<Rightarrow> c # replace_first ns m seps cs)"

definition aplicarMascaraCNPJ :: "string \<Rightarrow> string" where
  "aplicarMascaraCNPJ valor =
     (let numeros = strip_non_digits valor in
      if length numeros \<le> 2 then numeros
      else if length numeros \<le> 5 then replace_first [2] 3 ''.'' numeros
      else if length numeros \<le> 8 then replace_first [2, 3] 3 ''..'' numeros
      else if length numeros \<le> 12 then replace_first [2, 3, 3] 4 ''../'' numeros
      else replace_first [2, 3, 3, 4] 2 ''../-'' numeros)"

definition limparCNPJ :: "string \<Rightarrow> string" where
  "limparCNPJ valor = strip_non_digits valor"

section \<open>JavaScript values\<close>

text \<open>
  The payloads the front end handles are JSON documents and the values computed from
  them. \<open>JObj\<close> lists the own properties of an object in enumeration order (keys
  distinct); \<open>JNum\<close> carries the mathematical value of a finite number, \<open>JNaN\<close> is the
  not-a-number value that \<^verbatim>\<open>parseFloat\<close> can produce. Infinities and negative zero are
  left out.
\<close>

datatype jsval =
    JUndefined
  | JNull
  | JBool bool
  | JNum rat
  | JNaN
  | JStr string
  | JArr "jsval list"
  | JObj "(string \<times> jsval) list"

datatype js_error = TypeError

datatype js_type = T_undefined | T_object | T_boolean | T_number | T_string

fun typeof :: "jsval \<Rightarrow> js_type" where
  "typeof JUndefined = T_undefined"
| "typeof JNull = T_object"
| "typeof (JBool b) = T_boolean"
| "typeof (JNum r) = T_number"
| "typeof JNaN = T_number"
| "typeof (JStr s) = T_string"
| "typeof (JArr xs) = T_object"
| "typeof (JObj ps) = T_object"

text \<open>ToBoolean: the falsy values are undefined, null, false, 0, NaN and the empty string.\<close>

fun truthy :: "jsval \<Rightarrow> bool" where
  "truthy JUndefined = False"
| "truthy JNull = False"
| "truthy (JBool b) = b"
| "truthy (JNum r) = (r \<noteq> 0)"
| "truthy JNaN = False"
| "truthy (JStr s) = (s \<noteq> [])"
| "truthy (JArr xs) = True"
| "truthy (JObj ps) = True"

text \<open>The operator \<^verbatim>\<open>a || b\<close>.\<close>

definition js_or :: "jsval \<Rightarrow> jsval \<Rightarrow> jsval" where
  "js_or a b = (if truthy a then a else b)"

text \<open>
  Property read \<^verbatim>\<open>v.k\<close>: a TypeError on undefined and null, the own property of an
  object (undefined when missing), \<open>length\<close> of arrays and strings. The code never reads
  an array index or an inherited method through this function.
\<close>

fun get_prop :: "jsval \<Rightarrow> string \<Rightarrow> js_error + jsval" where
  "get_prop JUndefined k = Inl TypeError"
| "get_prop JNull k = Inl TypeError"
| "get_prop (JObj ps) k = Inr (case map_of ps k of None \<Rightarrow> JUndefined | Some v \<Rightarrow> v)"
| "get_prop (JArr xs) k = Inr (if k = ''length'' then JNum (of_nat (length xs)) else JUndefined)"
| "get_prop (JStr s) k = Inr (if k = ''length'' then JNum (of_nat (length s)) else JUndefined)"
| "get_prop v k = Inr JUndefined"

text \<open>Optional chaining \<^verbatim>\<open>v?.k\<close>: undefined instead of the TypeError.\<close>

definition opt_prop :: "jsval \<Rightarrow> string \<Rightarrow> jsval" where
  "opt_prop v k = (case get_prop v k of Inl e \<Rightarrow> JUndefined | Inr x \<Rightarrow> x)"

subsection \<open>Conversion to string\<close>

fun intercalate :: "string \<Rightarrow> string list \<Rightarrow> string" where
  "intercalate sep [] = []"
| "intercalate sep [x] = x"
| "intercalate sep (x # xs) = x @ sep @ intercalate sep xs"

definition digit_of :: "nat \<Rightarrow> char" where
  "digit_of n = ''0123456789abcdef'' ! n"

fun show_nat :: "nat \<Rightarrow> string" where
  "show_nat n = (if n < 10 then [digit_of n] else show_nat (n div 10) @ [digit_of (n mod 10)])"

fun frac_digits :: "nat \<Rightarrow> rat \<Rightarrow> string" where
  "frac_digits k r =
     (if k = 0 \<or> r = 0 then []
      else digit_of (nat \<lfloor>r * 10\<rfloor>) # frac_digits (k - 1) (r * 10 - of_int \<lfloor>r * 10\<rfloor>))"

declare show_nat.simps [simp del] frac_digits.simps [simp del]

text \<open>
  Number::toString. A number from \<open>10\<^sup>-\<^sup>6\<close> up to, but not including, \<open>10\<^sup>2\<^sup>1\<close> is
  printed in positional notation: the sign, the integer part, and the fractional digits
  when there are any. A larger number is printed as its first digit, the remaining
  digits up to the last one that is not zero, and \<open>e+\<close> with the exponent; a smaller one
  likewise with \<open>e-\<close>. The digits are those of the exact value, which are the digits
  JavaScript prints for the decimal numbers of a JSON document with up to 15 significant
  digits; a number of \<open>10\<^sup>2\<^sup>1\<close> or more is taken to be an integer, as every such
  floating-point number is.
\<close>

definition mantissa :: "string \<Rightarrow> string" where
  "mantissa ds =
     (case ds of [] \<Rightarrow> [] | d # rest \<Rightarrow> d # (if rest = [] then [] else ''.'' @ rest))"

definition strip_zeros :: "string \<Rightarrow> string" where
  "strip_zeros ds = rev (dropWhile (\<lambda>c. c = CHR ''0'') (rev ds))"

definition num_str :: "rat \<Rightarrow> string" where
  "num_str r =
     (let a = \<bar>r\<bar>; ip = nat \<lfloor>a\<rfloor>; fp = a - of_int \<lfloor>a\<rfloor>;
          sign = (if r < 0 then ''-'' else [])
      in if 1000000000000000000000 \<le> a then
           sign @ mantissa (strip_zeros (show_nat ip)) @ ''e+'' @
           show_nat (length (show_nat ip) - 1)
         else if 0 < a \<and> a < 1 / 1000000 then
           (let ds = frac_digits 400 a; z = length (takeWhile (\<lambda>c. c = CHR ''0'') ds)
            in sign @ mantissa (drop z ds) @ ''e-'' @ show_nat (z + 1))
         else sign @ show_nat ip @ (if fp = 0 then [] else ''.'' @ frac_digits 400 fp))"

text \<open>
  ToString, as applied by template literals, \<^verbatim>\<open>String(v)\<close> and string concatenation.
  \<^verbatim>\<open>Array.prototype.join\<close> renders undefined and null elements as the empty string and
  every other element by ToString; ToString of an array is its join with a comma.
\<close>

fun to_string :: "jsval \<Rightarrow> string" where
  "to_string JUndefined = ''undefined''"
| "to_string JNull = ''null''"
| "to_string (JBool b) = (if b then ''true'' else ''false'')"
| "to_string (JNum r) = num_str r"
| "to_string JNaN = ''NaN''"
| "to_string (JStr s) = s"
| "to_string (JArr xs) =
     intercalate '',''
       (map (\<lambda>v. case v of JUndefined \<Rightarrow> [] | JNull \<Rightarrow> [] | _ \<Rightarrow> to_string v) xs)"
| "to_string (JObj ps) = ''[object Object]''"

definition join_elem :: "jsval \<Rightarrow> string" where
  "join_elem v = (case v of JUndefined \<Rightarrow> [] | JNull \<Rightarrow> [] | _ \<Rightarrow> to_string v)"

definition js_join :: "string \<Rightarrow> jsval list \<Rightarrow> string" where
  "js_join sep xs = intercalate sep (map join_elem xs)"

subsection \<open>JSON.stringify\<close>

definition json_escape :: "char \<Rightarrow> string" where
  "json_escape c =
     (if c = CHR 0x22 then [CHR 0x5C, CHR 0x22]
      else if c = CHR 0x5C then [CHR 0x5C, CHR 0x5C]
      else if c = CHR 0x08 then [CHR 0x5C, CHR ''b'']
      else if c = CHR 0x0C then [CHR 0x5C, CHR ''f'']
      else if c = CHR 0x0A then [CHR 0x5C, CHR ''n'']
      else if c = CHR 0x0D then [CHR 0x5C, CHR ''r'']
      else if c = CHR 0x09 then [CHR 0x5C, CHR ''t'']
      else if (of_char c :: nat) < 32
        then [CHR 0x5C] @ ''u00'' @ [digit_of (of_char c div 16), digit_of (of_char c mod 16)]
      else [c])"

definition json_quote :: "string \<Rightarrow> string" where
  "json_quote s = [CHR 0x22] @ concat (map json_escape s) @ [CHR 0x22]"

text \<open>
  The text of a value inside a document: an undefined array element is written
  \<open>null\<close>, a property whose value is undefined is left out, NaN is written \<open>null\<close>.
\<close>

fun json_text :: "jsval \<Rightarrow> string" where
  "json_text JUndefined = ''null''"
| "json_text JNull = ''null''"
| "json_text (JBool b) = (if b then ''true'' else ''false'')"
| "json_text (JNum r) = num_str r"
| "json_text JNaN = ''null''"
| "json_text (JStr s) = json_quote s"
| "json_text (JArr xs) = ''['' @ intercalate '','' (map json_text xs) @ '']''"
| "json_text (JObj ps) =
     ''{'' @ intercalate '',''
       (map (\<lambda>(k, v). json_quote k @ '':'' @ json_text v)
          (filter (\<lambda>(k, v). v \<noteq> JUndefined) ps)) @ ''}''"

text \<open>\<^verbatim>\<open>JSON.stringify(v)\<close> returns undefined, not a string, when \<open>v\<close> is undefined.\<close>

definition JSON_stringify :: "jsval \<Rightarrow> jsval" where
  "JSON_stringify v = (if v = JUndefined then JUndefined else JStr (json_text v))"

subsection \<open>Exceptions and numeric comparison\<close>

text \<open>A computation that throws is \<open>Inl\<close> of the thrown error; \<open>bind_err\<close> sequences two.\<close>

definition bind_err :: "'e + 'a \<Rightarrow> ('a \<Rightarrow> 'e + 'b) \<Rightarrow> 'e + 'b" where
  "bind_err m f = (case m of Inl e \<Rightarrow> Inl e | Inr x \<Rightarrow> f x)"

text \<open>\<^verbatim>\<open>Array.prototype.map\<close> with a callback that may throw: the first throw ends it.\<close>

fun map_err :: "('a \<Rightarrow> 'e + 'b) \<Rightarrow> 'a list \<Rightarrow> 'e + 'b list" where
  "map_err f [] = Inr []"
| "map_err f (x # xs) =
     (case f x of
        Inl e \<Rightarrow> Inl e
      | Inr y \<Rightarrow> (case map_err f xs of Inl e \<Rightarrow> Inl e | Inr ys \<Rightarrow> Inr (y # ys)))"

text \<open>
  ToNumber. The conversion of a string to a number (StringToNumber) belongs to the
  platform and is a parameter, \<open>str_num\<close>; its result is a \<open>JNum\<close> or \<open>JNaN\<close>.
\<close>

fun to_number :: "(string \<Rightarrow> jsval) \<Rightarrow> jsval \<Rightarrow> jsval" where
  "to_number str_num JUndefined = JNaN"
| "to_number str_num JNull = JNum 0"
| "to_number str_num (JBool b) = JNum (if b then 1 else 0)"
| "to_number str_num (JNum r) = JNum r"
| "to_number str_num JNaN = JNaN"
| "to_number str_num (JStr s) = str_num s"
| "to_number str_num v = str_num (to_string v)"

text \<open>The comparison \<^verbatim>\<open>v > 0\<close>.\<close>

definition gt_zero :: "(string \<Rightarrow> jsval) \<Rightarrow> jsval \<Rightarrow> bool" where
  "gt_zero str_num v = (case to_number str_num v of JNum r \<Rightarrow> 0 < r | _ \<Rightarrow> False)"

section \<open>Error normalizer (CadastroEmpresa: extrairMensagemErro)\<close>

text \<open>
  The callback of \<^verbatim>\<open>data.detail.map\<close>: a string entry is returned as it is; an entry with
  a truthy \<open>msg\<close> becomes the template
  \<^verbatim>\<open>`${e.loc ? e.loc.join('.') + ': ' : ''}${e.msg}`\<close>; any other entry is serialized.
  Reading \<open>msg\<close> of a null entry throws, and so does calling \<open>join\<close> on a truthy \<open>loc\<close> that
  is not an array.
\<close>

definition detail_entry :: "jsval \<Rightarrow> js_error + jsval" where
  "detail_entry e =
     (if typeof e = T_string then Inr e
      else bind_err (get_prop e ''msg'') (\<lambda>msg.
        if truthy msg then
          bind_err (get_prop e ''loc'') (\<lambda>loc.
            if truthy loc then
              (case loc of
                 JArr path \<Rightarrow> Inr (JStr (js_join ''.'' path @ '': '' @ to_string msg))
               | _ \<Rightarrow> Inl TypeError)
            else Inr (JStr (to_string msg)))
        else Inr (JSON_stringify e)))"

text \<open>
  The initial message \<^verbatim>\<open>mensagemErro\<close>; the c-cedilla and the a-tilde of its last word are
  two UTF-8 bytes each.
\<close>

definition erro_desconhecido :: string where
  "erro_desconhecido =
     ''Erro desconhecido ao processar requisi'' @ [CHR 0xC3, CHR 0xA7, CHR 0xC3, CHR 0xA3] @ ''o.''"

definition extrairMensagemErro :: "jsval \<Rightarrow> js_error + jsval" where
  "extrairMensagemErro err =
     bind_err (get_prop err ''response'') (\<lambda>response.
     bind_err
       (if truthy response then
          bind_err (get_prop response ''data'') (\<lambda>data.
            if typeof data = T_string then Inr data
            else if truthy (opt_prop data ''detail'') then
              (let detail = opt_prop data ''detail'' in
               case detail of
                 JArr es \<Rightarrow>
                   bind_err (map_err detail_entry es) (\<lambda>rs. Inr (JStr (js_join ''; '' rs)))
               | _ \<Rightarrow>
                   if typeof detail = T_string then Inr detail
                   else Inr (JSON_stringify detail))
            else Inr (JSON_stringify data))
        else
          bind_err (get_prop err ''message'') (\<lambda>message.
            if truthy message then Inr message else Inr (JStr erro_desconhecido)))
       (\<lambda>mensagemErro.
          Inr (if typeof mensagemErro = T_object then JSON_stringify mensagemErro
               else mensagemErro)))"

section \<open>Registry auto-populator (CadastroEmpresa: consultarCNPJ)\<close>

record cnae_entry =
  cnae_codigo :: jsval
  descricao :: jsval
  codigo_servico_municipal :: jsval

text \<open>
  The object literal pushed for the primary activity and for each secondary one:
  \<^verbatim>\<open>{cnae_codigo: c.codigo ? String(c.codigo) : '', descricao: c.descricao || '',
  codigo_servico_municipal: ''}\<close>.
\<close>

definition cnae_entry_of :: "jsval \<Rightarrow> js_error + cnae_entry" where
  "cnae_entry_of cnae =
     bind_err (get_prop cnae ''codigo'') (\<lambda>codigo.
     bind_err (get_prop cnae ''descricao'') (\<lambda>desc.
       Inr \<lparr>cnae_codigo = (if truthy codigo then JStr (to_string codigo) else JStr []),
            descricao = js_or desc (JStr []),
            codigo_servico_municipal = JStr []\<rparr>))"

text \<open>
  The list \<^verbatim>\<open>cnaesAutoPopulados\<close> built from the lookup response \<^verbatim>\<open>dados\<close>: the primary
  activity when \<^verbatim>\<open>dados.cnae_principal\<close> is truthy, then
  \<^verbatim>\<open>dados.cnaes_secundarios.slice(0, 5)\<close> when that value is truthy and its length is
  positive. A truthy value with a positive length that is not an array has no working
  \<^verbatim>\<open>slice(...).forEach\<close>, which throws.
\<close>

definition cnaesAutoPopulados :: "(string \<Rightarrow> jsval) \<Rightarrow> jsval \<Rightarrow> js_error + cnae_entry list" where
  "cnaesAutoPopulados str_num dados =
     bind_err (get_prop dados ''cnae_principal'') (\<lambda>principal.
     bind_err (if truthy principal
               then bind_err (cnae_entry_of principal) (\<lambda>e. Inr [e])
               else Inr []) (\<lambda>primeiro.
     bind_err (get_prop dados ''cnaes_secundarios'') (\<lambda>secundarios.
       if truthy secundarios \<and> gt_zero str_num (opt_prop secundarios ''length'') then
         (case secundarios of
            JArr cnaes \<Rightarrow>
              bind_err (map_err cnae_entry_of (take 5 cnaes)) (\<lambda>rest. Inr (primeiro @ rest))
          | _ \<Rightarrow> Inl TypeError)
       else Inr primeiro)))"

section \<open>Batch import (UploadXML)\<close>

record js_file =
  name :: string
  content :: string

record upload_state =
  files :: "js_file list"
  loading :: bool
  progresso :: "(nat \<times> nat) option"
  resultado :: jsval
  error :: jsval

definition initial_state :: upload_state where
  "initial_state =
     \<lparr>files = [], loading = False, progresso = None, resultado = JNull, error = JStr []\<rparr>"

definition endsWith :: "string \<Rightarrow> string \<Rightarrow> bool" where
  "endsWith s suf = (length suf \<le> length s \<and> drop (length s - length suf) s = suf)"

text \<open>The three messages of the local checks, the accents in UTF-8.\<close>

definition msg_xml_validos :: string where
  "msg_xml_validos =
     ''Por favor, selecione apenas arquivos XML v'' @ [CHR 0xC3, CHR 0xA1] @ ''lidos''"

definition msg_maximo :: string where
  "msg_maximo = ''M'' @ [CHR 0xC3, CHR 0xA1] @ ''ximo de 100 arquivos por upload''"

definition msg_selecione :: string where
  "msg_selecione = ''Selecione pelo menos um arquivo''"

definition handleFileChange :: "js_file list \<Rightarrow> upload_state \<Rightarrow> upload_state" where
  "handleFileChange selectedFiles s =
     (let xmlFiles = filter (\<lambda>f. endsWith (name f) ''.xml'') selectedFiles in
      if length xmlFiles = 0 then s\<lparr>error := JStr msg_xml_validos, files := []\<rparr>
      else if 100 < length xmlFiles then s\<lparr>error := JStr msg_maximo, files := []\<rparr>
      else s\<lparr>files := xmlFiles, error := JStr [], resultado := JNull\<rparr>)"

text \<open>The effect that runs when the selected company changes.\<close>

definition empresa_changed :: "upload_state \<Rightarrow> upload_state" where
  "empresa_changed s = s\<lparr>files := [], resultado := JNull, error := JStr [], progresso := None\<rparr>"

text \<open>
  The transport: \<^verbatim>\<open>axios.post(endpoint, formData, ...)\<close> is a parameter that maps the
  request to \<open>Inr\<close> of the response body (\<^verbatim>\<open>response.data\<close>) or \<open>Inl\<close> of the rejection
  value. The optional callback \<^verbatim>\<open>onUploadSuccess\<close> is absent, returns, or throws.
\<close>

record post_request =
  url :: string
  form :: "(string \<times> js_file) list"

datatype callback = NoCallback | Returns | Throws jsval

record upload_run =
  final :: upload_state
  calls :: "post_request list"
  thrown :: "js_error option"

text \<open>
  The \<^verbatim>\<open>catch\<close> block: the message is \<^verbatim>\<open>err.response?.data?.detail\<close> or the fixed text;
  after storing it the block calls \<^verbatim>\<open>errorMsg.includes\<close>, which exists on strings and
  arrays only.
\<close>

definition upload_catch :: "jsval \<Rightarrow> upload_state \<Rightarrow> upload_state \<times> js_error option" where
  "upload_catch err s =
     (case get_prop err ''response'' of
        Inl e \<Rightarrow> (s, Some e)
      | Inr response \<Rightarrow>
          (let errorMsg = js_or (opt_prop (opt_prop response ''data'') ''detail'')
                                (JStr ''Erro ao processar arquivos'')
           in (s\<lparr>error := errorMsg\<rparr>,
               case errorMsg of JStr m \<Rightarrow> None | JArr xs \<Rightarrow> None | _ \<Rightarrow> Some TypeError)))"

text \<open>
  \<^verbatim>\<open>handleUpload\<close>, with the \<^verbatim>\<open>await\<close> run to completion. The file input element that the
  success path resets is rendered by the component itself and always exists.
\<close>

definition handleUpload ::
  "string \<Rightarrow> jsval \<Rightarrow> callback \<Rightarrow> (post_request \<Rightarrow> jsval + jsval) \<Rightarrow> upload_state \<Rightarrow> upload_run" where
  "handleUpload API_URL empresaId onUploadSuccess post s =
     (if length (files s) = 0
      then \<lparr>final = s\<lparr>error := JStr msg_selecione\<rparr>, calls = [], thrown = None\<rparr>
      else
        (let s1 = s\<lparr>loading := True, error := JStr [], resultado := JNull,
                     progresso := Some (0, length (files s))\<rparr>;
             req = (if 1 < length (files s)
                    then \<lparr>url = API_URL @ ''/api/notas/importar-lote/'' @ to_string empresaId,
                          form = map (\<lambda>f. (''files'', f)) (files s)\<rparr>
                    else \<lparr>url = API_URL @ ''/api/notas/importar/'' @ to_string empresaId,
                          form = [(''file'', files s ! 0)]\<rparr>);
             r = (case post req of
                    Inr data \<Rightarrow>
                      (let s2 = s1\<lparr>resultado :=
                                     (if 1 < length (files s) then data
                                      else JObj [(''total_arquivos'', JNum 1), (''sucesso'', JNum 1),
                                                 (''falhas'', JNum 0), (''nota'', data)]),
                                   files := []\<rparr>
                       in (case onUploadSuccess of
                             Throws e \<Rightarrow> upload_catch e s2
                           | _ \<Rightarrow> (s2, None)))
                  | Inl err \<Rightarrow> upload_catch err s1)
         in \<lparr>final = (fst r)\<lparr>loading := False, progresso := None\<rparr>,
             calls = [req], thrown = snd r\<rparr>))"

text \<open>The states the component can be in: any sequence of the three events.\<close>

inductive reachable :: "upload_state \<Rightarrow> bool" where
  reach_init: "reachable initial_state"
| reach_select: "reachable s \<Longrightarrow> reachable (handleFileChange selectedFiles s)"
| reach_upload: "reachable s \<Longrightarrow> reachable (final (handleUpload API_URL empresaId cb post s))"
| reach_empresa: "reachable s \<Longrightarrow> reachable (empresa_changed s)"

section \<open>Invoice document (pdfGenerator: formatCurrency and the value table)\<close>










section \<open>The claims' own vocabulary\<close>

text \<open>
  A validation entry as the specification describes it: an object with a message, a
  non-empty string under \<open>msg\<close>, and an optional location path under \<open>loc\<close>, a list of
  names and indices; it may carry further fields, in any order. \<open>spec_render_entry\<close> is
  the rendering the specification asks for: the path joined with dots, a colon and a
  space, then the message; no prefix without a location.
\<close>

definition path_segment :: "jsval \<Rightarrow> bool" where
  "path_segment v = (case v of JStr s \<Rightarrow> True | JNum r \<Rightarrow> True | _ \<Rightarrow> False)"

definition segment_text :: "jsval \<Rightarrow> string" where
  "segment_text v = (case v of JStr s \<Rightarrow> s | JNum r \<Rightarrow> num_str r | _ \<Rightarrow> [])"

definition validation_entry :: "jsval \<Rightarrow> bool" where
  "validation_entry e =
     (case e of
        JObj ps \<Rightarrow>
          (case map_of ps ''msg'' of Some (JStr m) \<Rightarrow> m \<noteq> [] | _ \<Rightarrow> False) \<and>
          (case map_of ps ''loc'' of
             None \<Rightarrow> True
           | Some JNull \<Rightarrow> True
           | Some (JArr path) \<Rightarrow> list_all path_segment path
           | _ \<Rightarrow> False)
      | _ \<Rightarrow> False)"

definition spec_render_entry :: "jsval \<Rightarrow> string" where
  "spec_render_entry e =
     (case opt_prop e ''loc'' of
        JArr path \<Rightarrow> intercalate ''.'' (map segment_text path) @ '': ''
      | _ \<Rightarrow> []) @
     (case opt_prop e ''msg'' of JStr m \<Rightarrow> m | _ \<Rightarrow> [])"

text \<open>The entry that the populator builds from one activity record that is not null.\<close>

definition entry_fields :: "jsval \<Rightarrow> cnae_entry" where
  "entry_fields c =
     \<lparr>cnae_codigo =
        JStr (if truthy (opt_prop c ''codigo'') then to_string (opt_prop c ''codigo'') else []),
      descricao = js_or (opt_prop c ''descricao'') (JStr []),
      codigo_servico_municipal = JStr []\<rparr>"

text \<open>
  What every reachable state of the upload component satisfies: at most 100 selected
  files, all named \<open>*.xml\<close>, and no displayed result while files are selected.
\<close>

definition state_ok :: "upload_state \<Rightarrow> bool" where
  "state_ok s =
     (length (files s) \<le> 100 \<and> list_all (\<lambda>f. endsWith (name f) ''.xml'') (files s) \<and>
      (files s \<noteq> [] \<longrightarrow> resultado s = JNull))"





section \<open>Properties of the identifier formatter\<close>

lemma match_fixed_concat:
  "match_fixed ns s = Some (gs, r) \<Longrightarrow> concat gs @ r = s"
  by (induction ns arbitrary: s gs r) (auto split: if_splits option.splits)

lemma match_here_concat:
  "match_here ns m s = Some (gs, r) \<Longrightarrow> concat gs @ r = s"
proof -
  assume a: "match_here ns m s = Some (gs, r)"
  then obtain fs q where f: "match_fixed ns s = Some (fs, q)"
    and g: "gs = fs @ [takeWhile is_digit (take m q)]"
    and r: "r = drop (length (takeWhile is_digit (take m q))) q"
    by (auto simp: match_here_def Let_def split: option.splits)
  have "takeWhile is_digit (take m q) @ drop (length (takeWhile is_digit (take m q))) (take m q) = take m q"
    by (metis takeWhile_dropWhile_id dropWhile_eq_drop)
  have pre: "take (length (takeWhile is_digit (take m q))) q = takeWhile is_digit (take m q)"
    by (metis append_eq_conv_conj append_take_drop_id takeWhile_dropWhile_id append.assoc)
  from f have "concat fs @ q = s" by (rule match_fixed_concat)
  with g r pre show ?thesis
    by (metis append.assoc append_Nil2 append_take_drop_id concat.simps concat_append)
qed

lemma filter_subst_groups:
  "\<forall>c \<in> set seps. \<not> is_digit c \<Longrightarrow>
   filter is_digit (subst_groups seps gs) = filter is_digit (concat gs)"
  by (induction seps gs rule: subst_groups.induct) auto

lemma filter_replace_match:
  assumes "\<forall>c \<in> set seps. \<not> is_digit c" and "match_here ns m s = Some (gs, r)"
  shows "filter is_digit (subst_groups seps gs @ r) = filter is_digit s"
proof -
  from assms(2) have "concat gs @ r = s" by (rule match_here_concat)
  then have "filter is_digit (concat gs) @ filter is_digit r = filter is_digit s"
    by (metis filter_append)
  with assms(1) show ?thesis by (simp add: filter_subst_groups)
qed

lemma filter_replace_first:
  assumes "\<forall>c \<in> set seps. \<not> is_digit c"
  shows "filter is_digit (replace_first ns m seps s) = filter is_digit s"
proof (induction s)
  case Nil
  show ?case
  proof (cases "match_here ns m []")
    case None
    then show ?thesis by simp
  next
    case (Some p)
    obtain gs r where "p = (gs, r)" by (cases p)
    with Some filter_replace_match [OF assms, of ns m "[]" gs r] show ?thesis by simp
  qed
next
  case (Cons c cs)
  show ?case
  proof (cases "match_here ns m (c # cs)")
    case None
    with Cons show ?thesis by simp
  next
    case (Some p)
    obtain gs r where "p = (gs, r)" by (cases p)
    with Some filter_replace_match [OF assms, of ns m "c # cs" gs r] show ?thesis by simp
  qed
qed

lemma limpar_aplicar: "limparCNPJ (aplicarMascaraCNPJ valor) = strip_non_digits valor"
proof -
  have seps: "\<forall>c \<in> set ''.''. \<not> is_digit c" "\<forall>c \<in> set ''..''. \<not> is_digit c"
    "\<forall>c \<in> set ''../''. \<not> is_digit c" "\<forall>c \<in> set ''../-''. \<not> is_digit c"
    by (simp_all add: is_digit_def)
  show ?thesis
    unfolding limparCNPJ_def aplicarMascaraCNPJ_def Let_def strip_non_digits_def
    by (simp add: filter_replace_first [OF seps(1)] filter_replace_first [OF seps(2)]
        filter_replace_first [OF seps(3)] filter_replace_first [OF seps(4)])
qed

lemma list_all_take_drop:
  "list_all P xs \<Longrightarrow> list_all P (take n (drop k xs))"
  by (metis append_take_drop_id list_all_append)

lemma mask_long_digits:
  assumes "14 < length (strip_non_digits x)"
  shows "aplicarMascaraCNPJ x =
    (let d = strip_non_digits x in
     take 2 d @ ''.'' @ take 3 (drop 2 d) @ ''.'' @ take 3 (drop 5 d) @ ''/'' @
     take 4 (drop 8 d) @ ''-'' @ take 2 (drop 12 d) @ drop 14 d)"
proof -
  define d where "d = strip_non_digits x"
  have dig: "list_all is_digit d"
    by (simp add: d_def strip_non_digits_def list_all_iff)
  have len: "14 < length d" using assms by (simp add: d_def)
  have t: "list_all is_digit (take n (drop k d))" for n k
    using dig by (rule list_all_take_drop)
  have t0: "list_all is_digit (take n d)" for n
    using t [of n 0] by simp
  have tw: "takeWhile is_digit (take 2 (drop 12 d)) = take 2 (drop 12 d)"
    using t [of 2 12] by (simp add: list_all_iff)
  have mf: "match_fixed [2, 3, 3, 4] d =
      Some ([take 2 d, take 3 (drop 2 d), take 3 (drop 5 d), take 4 (drop 8 d)], drop 12 d)"
  proof -
    have "2 \<le> length d" "3 \<le> length d - 2" "3 \<le> length d - 5" "4 \<le> length d - 8"
      using len by simp_all
    then show ?thesis by (simp add: t t0)
  qed
  have mh: "match_here [2, 3, 3, 4] 2 d =
      Some ([take 2 d, take 3 (drop 2 d), take 3 (drop 5 d), take 4 (drop 8 d),
             take 2 (drop 12 d)], drop 14 d)"
  proof -
    have "min (length d - 12) 2 = 2" using len by simp
    then show ?thesis unfolding match_here_def mf by (simp add: tw)
  qed
  obtain c cs where dc: "d = c # cs" using len by (cases d) auto
  have "replace_first [2, 3, 3, 4] 2 ''../-'' d =
      take 2 d @ ''.'' @ take 3 (drop 2 d) @ ''.'' @ take 3 (drop 5 d) @ ''/'' @
      take 4 (drop 8 d) @ ''-'' @ take 2 (drop 12 d) @ drop 14 d"
    using mh unfolding dc by simp
  then show ?thesis
    using len unfolding aplicarMascaraCNPJ_def Let_def d_def [symmetric] by simp
qed

lemma strip_digits_id: "list_all is_digit d \<Longrightarrow> strip_non_digits d = d"
  by (simp add: strip_non_digits_def list_all_iff)

text \<open>
  C5. For every string \<open>d\<close> of ASCII digits of length at most 14, removing the mask from
  the masked form gives \<open>d\<close> back.
\<close>

theorem mask_unmask_roundtrip:
  assumes "list_all is_digit d" and "length d \<le> 14"
  shows "limparCNPJ (aplicarMascaraCNPJ d) = d"
  using assms(1) by (simp add: limpar_aplicar strip_digits_id)

theorem mask_unmask_roundtrip_witness:
  "list_all is_digit ''12345678901234'' \<and> length ''12345678901234'' \<le> 14 \<and>
   limparCNPJ (aplicarMascaraCNPJ ''12345678901234'') = ''12345678901234''"
  using mask_unmask_roundtrip [of "''12345678901234''"] by (simp add: is_digit_def)

text \<open>
  C6, as stated: the mask of an input with more than 14 digits would contain only the
  first 14 of them. It does not: the pattern matches the first 14 digits, and \<open>replace\<close>
  keeps the text after the match, so the fifteenth digit follows the formatted prefix.
\<close>

theorem mask_excess_counterexample:
  "aplicarMascaraCNPJ ''123456789012345'' = ''12.345.678/9012-345'' \<and>
   length (limparCNPJ (aplicarMascaraCNPJ ''123456789012345'')) = 15"
  by (simp add: aplicarMascaraCNPJ_def limparCNPJ_def strip_non_digits_def is_digit_def
      match_here_def)

text \<open>
  C6, amended. For every input with more than 14 digits the mask is the first 14 digits
  in the form \<open>AA.AAA.AAA/AAAA-AA\<close> followed by all remaining digits unchanged; removing
  the mask gives every digit of the input back, so more than 14 of them.
\<close>

theorem mask_excess_digits_kept:
  assumes "14 < length (strip_non_digits x)"
  shows "aplicarMascaraCNPJ x =
           (let d = strip_non_digits x in
            take 2 d @ ''.'' @ take 3 (drop 2 d) @ ''.'' @ take 3 (drop 5 d) @ ''/'' @
            take 4 (drop 8 d) @ ''-'' @ take 2 (drop 12 d) @ drop 14 d) \<and>
         limparCNPJ (aplicarMascaraCNPJ x) = strip_non_digits x \<and>
         14 < length (limparCNPJ (aplicarMascaraCNPJ x))"
proof (intro conjI)
  show "aplicarMascaraCNPJ x =
          (let d = strip_non_digits x in
           take 2 d @ ''.'' @ take 3 (drop 2 d) @ ''.'' @ take 3 (drop 5 d) @ ''/'' @
           take 4 (drop 8 d) @ ''-'' @ take 2 (drop 12 d) @ drop 14 d)"
    using assms by (rule mask_long_digits)
  show "limparCNPJ (aplicarMascaraCNPJ x) = strip_non_digits x"
    by (rule limpar_aplicar)
  show "14 < length (limparCNPJ (aplicarMascaraCNPJ x))"
    unfolding limpar_aplicar by (rule assms)
qed

theorem mask_excess_digits_kept_witness:
  "14 < length (strip_non_digits ''12.345.678/9012-3456'') \<and>
   aplicarMascaraCNPJ ''12.345.678/9012-3456'' = ''12.345.678/9012-3456'' \<and>
   limparCNPJ (aplicarMascaraCNPJ ''12.345.678/9012-3456'') = ''1234567890123456''"
  using mask_excess_digits_kept [of "''12.345.678/9012-3456''"]
  by (simp add: strip_non_digits_def is_digit_def limparCNPJ_def)

section \<open>Properties of the error normalizer\<close>

lemma get_prop_opt:
  "v \<noteq> JUndefined \<Longrightarrow> v \<noteq> JNull \<Longrightarrow> get_prop v k = Inr (opt_prop v k)"
  by (cases v) (simp_all add: opt_prop_def)

lemma truthy_not_nullish: "truthy v \<Longrightarrow> v \<noteq> JUndefined \<and> v \<noteq> JNull"
  by (cases v) simp_all

lemma map_err_all_ok:
  "\<forall>x \<in> set xs. f x = Inr (g x) \<Longrightarrow> map_err f xs = Inr (map g xs)"
  by (induction xs) simp_all

lemma to_string_array: "to_string (JArr xs) = js_join '','' xs"
proof -
  have "(\<lambda>v. case v of JUndefined \<Rightarrow> [] | JNull \<Rightarrow> [] | _ \<Rightarrow> to_string v) = join_elem"
    by (rule ext) (simp add: join_elem_def)
  then show ?thesis by (simp add: js_join_def)
qed

lemma js_join_strs: "js_join sep (map JStr xs) = intercalate sep xs"
  by (simp add: js_join_def join_elem_def comp_def)

lemma js_join_segments:
  "list_all path_segment path \<Longrightarrow> js_join sep path = intercalate sep (map segment_text path)"
proof -
  assume "list_all path_segment path"
  then have "map join_elem path = map segment_text path"
    by (intro map_cong refl)
      (auto simp: list_all_iff path_segment_def join_elem_def segment_text_def split: jsval.splits)
  then show ?thesis by (simp only: js_join_def)
qed

lemma detail_entry_valid:
  assumes "validation_entry e"
  shows "detail_entry e = Inr (JStr (spec_render_entry e))"
proof -
  from assms obtain ps where e: "e = JObj ps"
    by (cases e) (simp_all add: validation_entry_def)
  from assms e have msg: "case map_of ps ''msg'' of Some (JStr m) \<Rightarrow> m \<noteq> [] | _ \<Rightarrow> False"
    and loc: "case map_of ps ''loc'' of None \<Rightarrow> True | Some JNull \<Rightarrow> True
              | Some (JArr path) \<Rightarrow> list_all path_segment path | _ \<Rightarrow> False"
    by (simp_all add: validation_entry_def)
  obtain m where m: "map_of ps ''msg'' = Some (JStr m)" "m \<noteq> []"
  proof (cases "map_of ps ''msg''")
    case None
    with msg show ?thesis by simp
  next
    case (Some v)
    with msg that show ?thesis by (cases v) simp_all
  qed
  consider "map_of ps ''loc'' = None" | "map_of ps ''loc'' = Some JNull"
    | path where "map_of ps ''loc'' = Some (JArr path)" "list_all path_segment path"
  proof (cases "map_of ps ''loc''")
    case None
    with that show ?thesis by simp
  next
    case (Some v)
    with loc that show ?thesis by (cases v) simp_all
  qed
  then show ?thesis
  proof cases
    case 1
    with e m show ?thesis
      by (simp add: detail_entry_def spec_render_entry_def bind_err_def opt_prop_def)
  next
    case 2
    with e m show ?thesis
      by (simp add: detail_entry_def spec_render_entry_def bind_err_def opt_prop_def)
  next
    case 3
    with e m show ?thesis
      by (simp add: detail_entry_def spec_render_entry_def bind_err_def opt_prop_def
          js_join_segments)
  qed
qed

text \<open>
  C3, as stated: every entry of a \<open>detail\<close> list would be rendered as location, colon,
  message. An entry whose message is empty is not: the callback tests \<^verbatim>\<open>e.msg\<close> for
  truthiness and serializes the whole entry otherwise.
\<close>

theorem detail_list_counterexample:
  "extrairMensagemErro
     (JObj [(''response'', JObj [(''data'', JObj [(''detail'',
        JArr [JObj [(''loc'', JArr [JStr ''body'', JStr ''cnpj'']), (''msg'', JStr [])]])])])])
   = Inr (JStr (''{'' @ json_quote ''loc'' @ '':['' @ json_quote ''body'' @ '','' @
                json_quote ''cnpj'' @ ''],'' @ json_quote ''msg'' @ '':'' @ json_quote [] @ ''}''))
   \<and> spec_render_entry (JObj [(''loc'', JArr [JStr ''body'', JStr ''cnpj'']), (''msg'', JStr [])])
       = ''body.cnpj: ''"
  by (simp add: extrairMensagemErro_def bind_err_def opt_prop_def detail_entry_def JSON_stringify_def
      spec_render_entry_def js_join_def join_elem_def segment_text_def)

text \<open>
  C3, amended. For every failure value whose response body is not a string and has a
  \<open>detail\<close> list of validation entries with non-empty messages, the normalizer returns
  the entries joined with \<open>; \<close>, each rendered as the location path joined with dots,
  a colon and a space, then the message, without the prefix when the location is
  absent. The entries may carry other fields besides \<open>loc\<close> and \<open>msg\<close>, in any order, and
  a path may hold names and indices.
\<close>

theorem detail_list_rendered:
  assumes "get_prop err ''response'' = Inr response" and "truthy response"
    and "get_prop response ''data'' = Inr data" and "typeof data \<noteq> T_string"
    and "opt_prop data ''detail'' = JArr es"
    and "\<forall>e \<in> set es. validation_entry e"
  shows "extrairMensagemErro err = Inr (JStr (intercalate ''; '' (map spec_render_entry es)))"
proof -
  have "map_err detail_entry es = Inr (map (\<lambda>e. JStr (spec_render_entry e)) es)"
    using assms(6) by (intro map_err_all_ok) (simp add: detail_entry_valid)
  moreover have "js_join ''; '' (map (\<lambda>e. JStr (spec_render_entry e)) es)
      = intercalate ''; '' (map spec_render_entry es)"
    using js_join_strs [of "''; ''" "map spec_render_entry es"] by (simp add: comp_def)
  ultimately show ?thesis
    using assms(1-5) by (simp add: extrairMensagemErro_def bind_err_def)
qed

theorem detail_list_rendered_witness:
  "extrairMensagemErro
     (JObj [(''message'', JStr ''Request failed with status code 422''),
            (''response'', JObj [(''status'', JNum 422),
        (''data'', JObj [(''detail'',
           JArr [JObj [(''type'', JStr ''missing''), (''loc'', JArr [JStr ''body'', JStr ''cnpj'']),
                       (''msg'', JStr ''field required''), (''input'', JNull)],
                 JObj [(''msg'', JStr ''invalid''),
                       (''loc'', JArr [JStr ''query'', JStr ''items'', JNum 0])],
                 JObj [(''msg'', JStr ''bad request'')]])])])])
   = Inr (JStr ''body.cnpj: field required; query.items.0: invalid; bad request'')"
proof -
  let ?es = "[JObj [(''type'', JStr ''missing''), (''loc'', JArr [JStr ''body'', JStr ''cnpj'']),
                    (''msg'', JStr ''field required''), (''input'', JNull)],
              JObj [(''msg'', JStr ''invalid''),
                    (''loc'', JArr [JStr ''query'', JStr ''items'', JNum 0])],
              JObj [(''msg'', JStr ''bad request'')]]"
  let ?data = "JObj [(''detail'', JArr ?es)]"
  let ?response = "JObj [(''status'', JNum 422), (''data'', ?data)]"
  let ?err = "JObj [(''message'', JStr ''Request failed with status code 422''),
                    (''response'', ?response)]"
  have z: "num_str 0 = ''0''"
    by (simp add: num_str_def Let_def show_nat.simps digit_of_def)
  show ?thesis
    using detail_list_rendered [of ?err ?response ?data ?es]
    by (simp add: opt_prop_def validation_entry_def path_segment_def spec_render_entry_def
        segment_text_def z)
qed

text \<open>
  C4. The normalizer is meant to return a string for every failure value. It does not:
  a \<open>detail\<close> list with a null entry makes the callback read \<^verbatim>\<open>null.msg\<close>, and a truthy
  location that is not a list has no \<open>join\<close>; both throw a TypeError. A response with
  no body makes \<^verbatim>\<open>JSON.stringify\<close> return undefined, which the last check lets through.
\<close>

theorem normalizer_not_always_string:
  "extrairMensagemErro
     (JObj [(''response'', JObj [(''data'', JObj [(''detail'', JArr [JNull])])])]) = Inl TypeError
   \<and> extrairMensagemErro
     (JObj [(''response'', JObj [(''data'', JObj [(''detail'',
        JArr [JObj [(''loc'', JStr ''body''), (''msg'', JStr ''field required'')]])])])])
       = Inl TypeError
   \<and> extrairMensagemErro (JObj [(''response'', JObj [(''status'', JNum 500)])]) = Inr JUndefined"
  by (simp add: extrairMensagemErro_def bind_err_def opt_prop_def detail_entry_def JSON_stringify_def)

text \<open>
  C10. For every failure value whose response body is an object with a \<open>detail\<close> field
  that is the empty string, 0, null or false, the normalizer returns the serialization
  of the whole body.
\<close>

theorem falsy_detail_ignored:
  assumes "get_prop err ''response'' = Inr response" and "truthy response"
    and "get_prop response ''data'' = Inr (JObj body)"
    and "map_of body ''detail'' = Some d"
    and "d = JStr [] \<or> d = JNum 0 \<or> d = JNull \<or> d = JBool False"
  shows "extrairMensagemErro err = Inr (JSON_stringify (JObj body))
       \<and> JSON_stringify (JObj body) = JStr (json_text (JObj body))"
  using assms by (auto simp: extrairMensagemErro_def bind_err_def opt_prop_def JSON_stringify_def)

theorem falsy_detail_ignored_witness:
  "extrairMensagemErro
     (JObj [(''response'', JObj [(''data'', JObj [(''detail'', JStr []), (''erro'', JStr ''x'')])])])
   = Inr (JStr (''{'' @ json_quote ''detail'' @ '':'' @ json_quote [] @ '','' @
                json_quote ''erro'' @ '':'' @ json_quote ''x'' @ ''}''))"
  using falsy_detail_ignored [of
      "JObj [(''response'', JObj [(''data'', JObj [(''detail'', JStr []), (''erro'', JStr ''x'')])])]"
      "JObj [(''data'', JObj [(''detail'', JStr []), (''erro'', JStr ''x'')])]"
      "[(''detail'', JStr []), (''erro'', JStr ''x'')]" "JStr []"]
  by simp

section \<open>Properties of the registry auto-populator\<close>

lemma cnae_entry_of_fields:
  "c \<noteq> JUndefined \<Longrightarrow> c \<noteq> JNull \<Longrightarrow> cnae_entry_of c = Inr (entry_fields c)"
  by (simp add: cnae_entry_of_def get_prop_opt bind_err_def entry_fields_def)

lemma populados_value:
  assumes "get_prop dados ''cnae_principal'' = Inr cnae_principal" and "truthy cnae_principal"
    and "get_prop dados ''cnaes_secundarios'' = Inr sv"
    and "sv = JArr secundarios \<or> (\<not> truthy sv \<and> secundarios = [])"
    and "\<forall>c \<in> set (take 5 secundarios). c \<noteq> JUndefined \<and> c \<noteq> JNull"
  shows "cnaesAutoPopulados str_num dados = Inr (map entry_fields (cnae_principal # take 5 secundarios))"
proof -
  have p: "cnae_entry_of cnae_principal = Inr (entry_fields cnae_principal)"
    using assms(2) by (simp add: cnae_entry_of_fields truthy_not_nullish)
  have r: "map_err cnae_entry_of (take 5 secundarios) = Inr (map entry_fields (take 5 secundarios))"
    using assms(5) by (intro map_err_all_ok) (simp add: cnae_entry_of_fields)
  from assms(4) show ?thesis
  proof
    assume sv: "sv = JArr secundarios"
    show ?thesis
    proof (cases secundarios)
      case Nil
      with sv assms(1-3) p show ?thesis
        by (simp add: cnaesAutoPopulados_def bind_err_def opt_prop_def gt_zero_def)
    next
      case (Cons c cs)
      with sv assms(1-3) p r show ?thesis
        by (simp add: cnaesAutoPopulados_def bind_err_def opt_prop_def gt_zero_def)
    qed
  next
    assume "\<not> truthy sv \<and> secundarios = []"
    with assms(1-3) p show ?thesis
      by (simp add: cnaesAutoPopulados_def bind_err_def)
  qed
qed

text \<open>
  C7. For every lookup response whose primary activity is present and whose secondary
  activities are a list of \<open>k\<close> records (or are absent, \<open>k = 0\<close>), the populator returns
  \<open>1 + min k 5\<close> entries: the primary first, then the first five secondaries in order.
  Every code is a string, the string conversion of the source value whatever its type
  (the empty string when the source value is falsy), and every service code is the
  empty string.
\<close>

theorem populator_entries:
  assumes "get_prop dados ''cnae_principal'' = Inr cnae_principal" and "truthy cnae_principal"
    and "get_prop dados ''cnaes_secundarios'' = Inr sv"
    and "sv = JArr secundarios \<or> (\<not> truthy sv \<and> secundarios = [])"
    and "\<forall>c \<in> set (take 5 secundarios). c \<noteq> JUndefined \<and> c \<noteq> JNull"
  shows "\<exists>es. cnaesAutoPopulados str_num dados = Inr es \<and>
           length es = 1 + min (length secundarios) 5 \<and>
           map cnae_codigo es =
             map (\<lambda>c. JStr (if truthy (opt_prop c ''codigo'') then to_string (opt_prop c ''codigo'')
                            else []))
               (cnae_principal # take 5 secundarios) \<and>
           map descricao es =
             map (\<lambda>c. js_or (opt_prop c ''descricao'') (JStr [])) (cnae_principal # take 5 secundarios) \<and>
           (\<forall>e \<in> set es. typeof (cnae_codigo e) = T_string \<and> codigo_servico_municipal e = JStr [])"
proof -
  let ?es = "map entry_fields (cnae_principal # take 5 secundarios)"
  have "cnaesAutoPopulados str_num dados = Inr ?es"
    using assms by (rule populados_value)
  moreover have "length ?es = 1 + min (length secundarios) 5" by simp
  moreover have "map cnae_codigo ?es =
      map (\<lambda>c. JStr (if truthy (opt_prop c ''codigo'') then to_string (opt_prop c ''codigo'') else []))
        (cnae_principal # take 5 secundarios)"
    by (simp add: entry_fields_def)
  moreover have "map descricao ?es =
      map (\<lambda>c. js_or (opt_prop c ''descricao'') (JStr [])) (cnae_principal # take 5 secundarios)"
    by (simp add: entry_fields_def)
  moreover have "\<forall>e \<in> set ?es. typeof (cnae_codigo e) = T_string \<and> codigo_servico_municipal e = JStr []"
    by (auto simp: entry_fields_def)
  ultimately show ?thesis by blast
qed



theorem populator_entries_witness:
  "\<exists>es. cnaesAutoPopulados (\<lambda>s. JNaN)
          (JObj [(''cnae_principal'', JObj [(''codigo'', JNum 6201500), (''descricao'', JStr ''dev'')]),
                 (''cnaes_secundarios'',
                    JArr [JObj [(''codigo'', JNum 6202300)], JObj [(''codigo'', JStr ''6203100'')],
                          JObj [(''codigo'', JNum 6204000)], JObj [(''codigo'', JNum 6209100)],
                          JObj [(''codigo'', JNum 6311900)], JObj [(''codigo'', JNum 6319400)],
                          JObj [(''codigo'', JNum 7020400)], JObj [(''codigo'', JNum 8599604)]])]) = Inr es \<and>
        length es = 6 \<and>
        map cnae_codigo es = [JStr ''6201500'', JStr ''6202300'', JStr ''6203100'', JStr ''6204000'',
                              JStr ''6209100'', JStr ''6311900''] \<and>
        (\<forall>e \<in> set es. codigo_servico_municipal e = JStr [])"
proof -
  let ?secs = "[JObj [(''codigo'', JNum 6202300)], JObj [(''codigo'', JStr ''6203100'')],
                JObj [(''codigo'', JNum 6204000)], JObj [(''codigo'', JNum 6209100)],
                JObj [(''codigo'', JNum 6311900)], JObj [(''codigo'', JNum 6319400)],
                JObj [(''codigo'', JNum 7020400)], JObj [(''codigo'', JNum 8599604)]]"
  let ?p = "JObj [(''codigo'', JNum 6201500), (''descricao'', JStr ''dev'')]"
  let ?dados = "JObj [(''cnae_principal'', ?p), (''cnaes_secundarios'', JArr ?secs)]"
  have n: "num_str 6201500 = ''6201500''" "num_str 6202300 = ''6202300''"
    "num_str 6204000 = ''6204000''" "num_str 6209100 = ''6209100''"
    "num_str 6311900 = ''6311900''"
    by (simp_all add: num_str_def Let_def show_nat.simps digit_of_def)
  show ?thesis
    using populator_entries [of ?dados ?p "JArr ?secs" ?secs "\<lambda>s. JNaN"]
    by (simp add: opt_prop_def n) (auto simp: eval_nat_numeral)
qed

section \<open>Properties of the batch import\<close>

lemma upload_catch_frame:
  "files (fst (upload_catch err s)) = files s \<and> resultado (fst (upload_catch err s)) = resultado s"
  by (simp add: upload_catch_def Let_def split: sum.splits)

lemma upload_empty:
  "files s = [] \<Longrightarrow>
   handleUpload A e cb post s = \<lparr>final = s\<lparr>error := JStr msg_selecione\<rparr>, calls = [], thrown = None\<rparr>"
  by (simp add: handleUpload_def)

lemma upload_calls:
  "files s \<noteq> [] \<Longrightarrow>
   calls (handleUpload A e cb post s) =
     [if 1 < length (files s)
      then \<lparr>url = A @ ''/api/notas/importar-lote/'' @ to_string e,
            form = map (\<lambda>f. (''files'', f)) (files s)\<rparr>
      else \<lparr>url = A @ ''/api/notas/importar/'' @ to_string e, form = [(''file'', files s ! 0)]\<rparr>]"
  by (simp add: handleUpload_def Let_def)

lemma upload_failure:
  assumes "calls (handleUpload A e cb post s) = [req]" and "post req = Inl err"
  shows "files (final (handleUpload A e cb post s)) = files s \<and>
         resultado (final (handleUpload A e cb post s)) = JNull"
proof -
  have ne: "files s \<noteq> []" using assms(1) by (auto simp: handleUpload_def)
  from assms(1) have req: "req = (if 1 < length (files s)
      then \<lparr>url = A @ ''/api/notas/importar-lote/'' @ to_string e,
            form = map (\<lambda>f. (''files'', f)) (files s)\<rparr>
      else \<lparr>url = A @ ''/api/notas/importar/'' @ to_string e, form = [(''file'', files s ! 0)]\<rparr>)"
    by (simp add: upload_calls [OF ne])
  show ?thesis
    using ne assms(2) unfolding req
    by (simp add: handleUpload_def Let_def upload_catch_frame)
qed

lemma upload_success:
  assumes "calls (handleUpload A e cb post s) = [req]" and "post req = Inr data"
  shows "files (final (handleUpload A e cb post s)) = [] \<and>
         resultado (final (handleUpload A e cb post s)) =
           (if 1 < length (files s) then data
            else JObj [(''total_arquivos'', JNum 1), (''sucesso'', JNum 1),
                       (''falhas'', JNum 0), (''nota'', data)])"
proof -
  have ne: "files s \<noteq> []" using assms(1) by (auto simp: handleUpload_def)
  from assms(1) have req: "req = (if 1 < length (files s)
      then \<lparr>url = A @ ''/api/notas/importar-lote/'' @ to_string e,
            form = map (\<lambda>f. (''files'', f)) (files s)\<rparr>
      else \<lparr>url = A @ ''/api/notas/importar/'' @ to_string e, form = [(''file'', files s ! 0)]\<rparr>)"
    by (simp add: upload_calls [OF ne])
  show ?thesis
    using ne assms(2) unfolding req
    by (cases cb) (simp_all add: handleUpload_def Let_def upload_catch_frame)
qed

lemma upload_outcome:
  "files s \<noteq> [] \<Longrightarrow> \<exists>req. calls (handleUpload A e cb post s) = [req]"
  by (simp add: upload_calls)

lemma state_ok_select: "state_ok (handleFileChange sel s) \<or> \<not> state_ok s"
  by (auto simp: state_ok_def handleFileChange_def Let_def list_all_iff)

lemma state_ok_upload:
  assumes "state_ok s"
  shows "state_ok (final (handleUpload A e cb post s))"
proof (cases "files s = []")
  case True
  with assms show ?thesis by (simp add: upload_empty state_ok_def)
next
  case False
  then obtain req where c: "calls (handleUpload A e cb post s) = [req]"
    using upload_outcome by blast
  show ?thesis
  proof (cases "post req")
    case (Inl err)
    with c assms upload_failure [OF c Inl] show ?thesis by (simp add: state_ok_def)
  next
    case (Inr data)
    with upload_success [OF c Inr] show ?thesis by (simp add: state_ok_def)
  qed
qed

lemma reachable_ok: "reachable s \<Longrightarrow> state_ok s"
proof (induction rule: reachable.induct)
  case reach_init
  show ?case by (simp add: state_ok_def initial_state_def)
next
  case (reach_select s selectedFiles)
  then show ?case using state_ok_select by blast
next
  case (reach_upload s API_URL empresaId cb post)
  then show ?case by (simp add: state_ok_upload)
next
  case (reach_empresa s)
  then show ?case by (simp add: state_ok_def empresa_changed_def)
qed








section \<open>Properties of the upload state\<close>

text \<open>
  C9, as stated: the selected files and the displayed result would be cleared only when
  a new submission completes successfully. They are not: after a successful import the
  displayed result is cleared by the next accepted selection, before anything is
  submitted, and a rejected selection empties the file list. \<^verbatim>\<open>handleUpload\<close> itself
  resets the result before the transport call: run on a state that shows a result
  (which no sequence of events produces together with selected files), a failed cycle
  ends without it.
\<close>

theorem result_cleared_by_selection_counterexample:
  "resultado (final (handleUpload ''u'' (JStr ''e1'') Returns (\<lambda>r. Inr (JObj [(''numero_nota'', JNum 17)]))
       (handleFileChange [\<lparr>name = ''a.xml'', content = ''<a/>''\<rparr>] initial_state)))
     = JObj [(''total_arquivos'', JNum 1), (''sucesso'', JNum 1), (''falhas'', JNum 0),
             (''nota'', JObj [(''numero_nota'', JNum 17)])] \<and>
   resultado (handleFileChange [\<lparr>name = ''b.xml'', content = ''<b/>''\<rparr>]
     (final (handleUpload ''u'' (JStr ''e1'') Returns (\<lambda>r. Inr (JObj [(''numero_nota'', JNum 17)]))
       (handleFileChange [\<lparr>name = ''a.xml'', content = ''<a/>''\<rparr>] initial_state)))) = JNull \<and>
   files (handleFileChange [\<lparr>name = ''b.xml'', content = ''<b/>''\<rparr>]
     (final (handleUpload ''u'' (JStr ''e1'') Returns (\<lambda>r. Inr (JObj [(''numero_nota'', JNum 17)]))
       (handleFileChange [\<lparr>name = ''a.xml'', content = ''<a/>''\<rparr>] initial_state))))
     = [\<lparr>name = ''b.xml'', content = ''<b/>''\<rparr>] \<and>
   files (handleFileChange [\<lparr>name = ''c.txt'', content = ''c''\<rparr>]
     (handleFileChange [\<lparr>name = ''b.xml'', content = ''<b/>''\<rparr>]
       (final (handleUpload ''u'' (JStr ''e1'') Returns (\<lambda>r. Inr (JObj [(''numero_nota'', JNum 17)]))
         (handleFileChange [\<lparr>name = ''a.xml'', content = ''<a/>''\<rparr>] initial_state))))) = [] \<and>
   resultado (final (handleUpload ''u'' (JStr ''e1'') Returns (\<lambda>r. Inl (JObj [(''message'', JStr ''Network Error'')]))
     \<lparr>files = [\<lparr>name = ''a.xml'', content = ''<a/>''\<rparr>], loading = False, progresso = None,
      resultado = JObj [(''total_arquivos'', JNum 1)], error = JStr []\<rparr>)) = JNull"
  by (simp add: handleFileChange_def endsWith_def initial_state_def handleUpload_def Let_def
      upload_catch_def opt_prop_def js_or_def)

text \<open>
  C9, amended. When the transport call of a submission fails, the selected files are
  unchanged and no result is displayed: the result is reset at the start of the cycle,
  and in every reachable state it was already empty, because an accepted selection
  clears it; so a failed cycle leaves both as they were. A successful cycle empties the
  file list and stores the new result.
\<close>

theorem failed_upload_frame:
  "(reachable s \<and> calls (handleUpload A e cb post s) = [req] \<and> post req = Inl err \<longrightarrow>
      files (final (handleUpload A e cb post s)) = files s \<and>
      resultado (final (handleUpload A e cb post s)) = resultado s)
   \<and> (calls (handleUpload A e cb post s) = [req] \<and> post req = Inl err \<longrightarrow>
      files (final (handleUpload A e cb post s)) = files s \<and>
      resultado (final (handleUpload A e cb post s)) = JNull)
   \<and> (calls (handleUpload A e cb post s) = [req] \<and> post req = Inr data \<longrightarrow>
      files (final (handleUpload A e cb post s)) = [] \<and>
      resultado (final (handleUpload A e cb post s)) =
        (if 1 < length (files s) then data
         else JObj [(''total_arquivos'', JNum 1), (''sucesso'', JNum 1),
                    (''falhas'', JNum 0), (''nota'', data)]))
   \<and> (files (handleFileChange selectedFiles s) \<noteq> [] \<longrightarrow>
        resultado (handleFileChange selectedFiles s) = JNull)
   \<and> (filter (\<lambda>f. endsWith (name f) ''.xml'') selectedFiles = [] \<longrightarrow>
        files (handleFileChange selectedFiles s) = [])"
proof (intro conjI impI)
  assume a: "reachable s \<and> calls (handleUpload A e cb post s) = [req] \<and> post req = Inl err"
  then have c: "calls (handleUpload A e cb post s) = [req]" and p: "post req = Inl err"
    by simp_all
  have ne: "files s \<noteq> []" using c by (auto simp: upload_empty)
  from a have "state_ok s" by (simp add: reachable_ok)
  with ne have "resultado s = JNull" by (simp add: state_ok_def)
  with upload_failure [OF c p]
  show "files (final (handleUpload A e cb post s)) = files s"
    and "resultado (final (handleUpload A e cb post s)) = resultado s"
    by simp_all
next
  assume a: "calls (handleUpload A e cb post s) = [req] \<and> post req = Inl err"
  then have c: "calls (handleUpload A e cb post s) = [req]" and p: "post req = Inl err"
    by simp_all
  from upload_failure [OF c p]
  show "files (final (handleUpload A e cb post s)) = files s"
    and "resultado (final (handleUpload A e cb post s)) = JNull"
    by simp_all
next
  assume a: "calls (handleUpload A e cb post s) = [req] \<and> post req = Inr data"
  then have c: "calls (handleUpload A e cb post s) = [req]" and p: "post req = Inr data"
    by simp_all
  from upload_success [OF c p]
  show "files (final (handleUpload A e cb post s)) = []"
    and "resultado (final (handleUpload A e cb post s)) =
        (if 1 < length (files s) then data
         else JObj [(''total_arquivos'', JNum 1), (''sucesso'', JNum 1),
                    (''falhas'', JNum 0), (''nota'', data)])"
    by simp_all
next
  assume "files (handleFileChange selectedFiles s) \<noteq> []"
  then show "resultado (handleFileChange selectedFiles s) = JNull"
    by (auto simp: handleFileChange_def Let_def split: if_splits)
next
  assume "filter (\<lambda>f. endsWith (name f) ''.xml'') selectedFiles = []"
  then show "files (handleFileChange selectedFiles s) = []"
    by (simp add: handleFileChange_def)
qed

theorem failed_upload_frame_witness:
  "files (final (handleUpload ''u'' (JStr ''e1'') Returns
       (\<lambda>r. Inl (JObj [(''response'', JObj [(''data'', JObj [(''detail'', JStr ''CNPJ divergente'')])])]))
       (handleFileChange [\<lparr>name = ''a.xml'', content = ''<a/>''\<rparr>] initial_state)))
     = [\<lparr>name = ''a.xml'', content = ''<a/>''\<rparr>] \<and>
   resultado (final (handleUpload ''u'' (JStr ''e1'') Returns
       (\<lambda>r. Inl (JObj [(''response'', JObj [(''data'', JObj [(''detail'', JStr ''CNPJ divergente'')])])]))
       (handleFileChange [\<lparr>name = ''a.xml'', content = ''<a/>''\<rparr>] initial_state))) = JNull"
proof -
  let ?a = "\<lparr>name = ''a.xml'', content = ''<a/>''\<rparr>"
  let ?err = "JObj [(''response'', JObj [(''data'', JObj [(''detail'', JStr ''CNPJ divergente'')])])]"
  let ?post = "\<lambda>r::post_request. (Inl ?err :: jsval + jsval)"
  let ?s = "handleFileChange [?a] initial_state"
  have r: "reachable ?s" by (intro reach_select reach_init)
  have f: "files ?s = [?a]" "resultado ?s = JNull"
    by (simp_all add: handleFileChange_def endsWith_def initial_state_def)
  have c: "calls (handleUpload ''u'' (JStr ''e1'') Returns ?post ?s)
      = [\<lparr>url = ''u/api/notas/importar/e1'', form = [(''file'', ?a)]\<rparr>]"
    by (simp add: upload_calls f)
  show ?thesis
    using failed_upload_frame [of ?s "''u''" "JStr ''e1''" Returns ?post
        "\<lparr>url = ''u/api/notas/importar/e1'', form = [(''file'', ?a)]\<rparr>" ?err] r c f
    by simp
qed

section \<open>Properties of the invoice value table\<close>













end
